theory Spec2Isabelle
  imports Main "HOL-Library.AList" "HOL-Library.Sublist"
begin

section \<open>Python string operations used by the codec\<close>

text \<open>
  The codec of \<^verbatim>\<open>multi_language_compression_test.py\<close> works on Python strings.
  A string is modelled as a \<^typ>\<open>string\<close>, each character being the code point of
  the same number (0 to 255). \<^verbatim>\<open>str.lower\<close> and \<^verbatim>\<open>str.isspace\<close> are written out
  for that range; \<^verbatim>\<open>str.upper\<close> and \<^verbatim>\<open>str.title\<close> are only ever applied to the
  lower-case ASCII words of the abbreviation table and are written out for ASCII letters.
\<close>

definition lower_char :: "char \<Rightarrow> char" where
  "lower_char c =
     (let n = (of_char c :: nat)
      in if (65 \<le> n \<and> n \<le> 90) \<or> (192 \<le> n \<and> n \<le> 222 \<and> n \<noteq> 215)
         then char_of (n + 32) else c)"

definition upper_char :: "char \<Rightarrow> char" where
  "upper_char c =
     (let n = (of_char c :: nat)
      in if 97 \<le> n \<and> n \<le> 122 then char_of (n - 32) else c)"

definition is_lower :: "char \<Rightarrow> bool" where
  "is_lower c = (let n = (of_char c :: nat) in 97 \<le> n \<and> n \<le> 122)"

definition is_upper :: "char \<Rightarrow> bool" where
  "is_upper c = (let n = (of_char c :: nat) in 65 \<le> n \<and> n \<le> 90)"

definition isspace :: "char \<Rightarrow> bool" where
  "isspace c = ((of_char c :: nat) \<in> {9, 10, 11, 12, 13, 28, 29, 30, 31, 32, 133, 160})"

text \<open>\<^verbatim>\<open>s.lower()\<close>, \<^verbatim>\<open>s.upper()\<close>, \<^verbatim>\<open>s.strip()\<close>.\<close>

definition lower :: "string \<Rightarrow> string" where
  "lower s = map lower_char s"

definition upper :: "string \<Rightarrow> string" where
  "upper s = map upper_char s"

definition strip :: "string \<Rightarrow> string" where
  "strip s = rev (dropWhile isspace (rev (dropWhile isspace s)))"

text \<open>\<^verbatim>\<open>s.title()\<close>: a letter that follows a letter is lower-cased, any other letter is
  upper-cased; the flag records whether the previous character was a letter.\<close>

fun title_from :: "bool \<Rightarrow> string \<Rightarrow> string" where
  "title_from prev [] = []"
| "title_from prev (c # cs) =
     (if is_lower c then (if prev then c else upper_char c) # title_from True cs
      else if is_upper c then (if prev then lower_char c else c) # title_from True cs
      else c # title_from False cs)"

definition title :: "string \<Rightarrow> string" where
  "title s = title_from False s"

text \<open>\<^verbatim>\<open>s.startswith(p)\<close> and the substring test \<^verbatim>\<open>p in s\<close>.\<close>

fun startswith :: "string \<Rightarrow> string \<Rightarrow> bool" where
  "startswith s [] = True"
| "startswith [] (p # ps) = False"
| "startswith (c # cs) (p # ps) = (c = p \<and> startswith cs ps)"

fun contains :: "string \<Rightarrow> string \<Rightarrow> bool" where
  "contains [] p = (p = [])"
| "contains (c # cs) p = (startswith (c # cs) p \<or> contains cs p)"

text \<open>\<^verbatim>\<open>s.replace(old, new)\<close>: every occurrence of \<open>old\<close>, found from the left and
  without overlap, becomes \<open>new\<close>; an empty \<open>old\<close> matches before every character and at
  the end.\<close>

fun replace :: "string \<Rightarrow> string \<Rightarrow> string \<Rightarrow> string" where
  "replace [] old new = (if old = [] then new else [])"
| "replace (c # cs) old new =
     (if old = [] then new @ c # replace cs old new
      else if startswith (c # cs) old then new @ replace (drop (length old) (c # cs)) old new
      else c # replace cs old new)"


section \<open>Data model\<close>

text \<open>
  A node is the dictionary built by \<^verbatim>\<open>create_test_ast\<close> and rebuilt by the decoder, with
  the keys \<^verbatim>\<open>type\<close>, \<^verbatim>\<open>value\<close>, \<^verbatim>\<open>line_number\<close>, \<^verbatim>\<open>language\<close> and, on nodes decoded
  from a semantic reference only, \<^verbatim>\<open>semantic_type\<close> (\<open>None\<close> when the key is absent).
  The key \<^verbatim>\<open>children\<close> is the empty list wherever a node is built and is never read;
  it is left out.
\<close>

record node =
  node_type :: string
  node_value :: string
  line_number :: int
  language :: string
  semantic_type :: "string option"

text \<open>Templates of the two dictionaries; the semantic one has the extra key.\<close>

record template =
  t_type :: string
  t_value :: string
  t_language :: string

record sem_template =
  st_type :: string
  st_value :: string
  st_language :: string
  st_semantic_type :: string

text \<open>Phase 1 counts: \<^verbatim>\<open>{'count': .., 'template': ..}\<close>.\<close>

record pat_info =
  pi_count :: int
  pi_template :: template

record sem_info =
  si_count :: int
  si_template :: sem_template

text \<open>Phase 2 entries: \<^verbatim>\<open>{'id': .., 'template': .., 'count': ..}\<close>, the semantic ones
  with \<^verbatim>\<open>'semantic_type'\<close> too.\<close>

record pat_entry =
  pe_id :: int
  pe_template :: template
  pe_count :: int

record sem_entry =
  se_id :: int
  se_template :: sem_template
  se_count :: int
  se_semantic_type :: string

text \<open>The records of \<^verbatim>\<open>compressed_data\<close>: \<^verbatim>\<open>['P', id, line]\<close>, \<^verbatim>\<open>['S', id, line]\<close> and
  \<^verbatim>\<open>['O', type, value, line]\<close>.\<close>

datatype item =
  Item_P int int
| Item_S int int
| Item_O string string int

record meta_info =
  total_nodes :: int
  pattern_count :: int
  semantic_count :: int
  compression_version :: string
  advanced_features :: bool

text \<open>
  A Python dictionary keeps its keys in insertion order, and the encoder numbers the
  entries in that order, so a dictionary is an association list: \<^const>\<open>map_of\<close> is the
  lookup and \<^const>\<open>AList.update\<close> the assignment \<^verbatim>\<open>d[k] = v\<close> (in place for a key that
  is present, at the end for a new one).

  The compressed document is a dictionary with the keys \<^verbatim>\<open>patterns\<close>,
  \<^verbatim>\<open>semantic_patterns\<close>, \<^verbatim>\<open>data\<close> and \<^verbatim>\<open>metadata\<close>, each of which may be absent
  (\<open>None\<close>): the encoder returns the empty dictionary for an empty input, and the
  decoder tests for \<^verbatim>\<open>data\<close> and reads the two tables with a default.
\<close>

type_synonym 'v dict = "(string \<times> 'v) list"

record compressed =
  patterns :: "pat_entry dict option"
  semantic_patterns :: "sem_entry dict option"
  data :: "item list option"
  metadata :: "meta_info option"

definition empty_dict :: compressed where
  "empty_dict = \<lparr>patterns = None, semantic_patterns = None, data = None, metadata = None\<rparr>"

section \<open>Line model builder\<close>

text \<open>\<^verbatim>\<open>content.split('\n')\<close>: the pieces between line feeds, at least one.\<close>

fun split_lines :: "string \<Rightarrow> string list" where
  "split_lines [] = [[]]"
| "split_lines (c # cs) =
     (if c = CHR 0x0A then [] # split_lines cs
      else (case split_lines cs of l # ls \<Rightarrow> (c # l) # ls | [] \<Rightarrow> [[c]]))"

definition create_test_ast :: "string \<Rightarrow> string \<Rightarrow> node list" where
  "create_test_ast content lang =
     map (\<lambda>(i, line). \<lparr>node_type = ''line'', node_value = strip line,
                        line_number = int i + 1, language = lang, semantic_type = None\<rparr>)
       (filter (\<lambda>(i, line). strip line \<noteq> []) (enumerate 0 (split_lines content)))"

section \<open>Signature generator\<close>

definition create_compact_signature :: "node \<Rightarrow> string" where
  "create_compact_signature n =
     (let value_preview = (if length (node_value n) > 30 then take 30 (node_value n)
                           else node_value n)
      in node_type n @ '':'' @ value_preview @ '':'' @ language n)"

definition create_semantic_signature :: "node \<Rightarrow> string" where
  "create_semantic_signature n =
     (let v = strip (lower (node_value n))
      in if list_ex (contains v) [''function'', ''def '', ''fn '', ''pub fn'', ''fn '']
           then ''function_decl:'' @ language n
         else if list_ex (contains v) [''class '', ''struct '', ''impl '', ''trait '']
           then ''type_decl:'' @ language n
         else if list_ex (contains v) [''if '', ''else'', ''match '', ''switch '']
           then ''control_flow:'' @ language n
         else if list_ex (contains v) [''for '', ''while '', ''loop '']
           then ''loop_construct:'' @ language n
         else if list_ex (contains v) [''return '', ''yield '', ''break '']
           then ''flow_control:'' @ language n
         else if list_ex (contains v) [''import '', ''use '', ''extern '']
           then ''import_statement:'' @ language n
         else if list_ex (contains v) [''//'', ''/*'', ''#'', ''///'']
           then ''comment:'' @ language n
         else if list_ex (contains v) [''let '', ''var '', ''const '', ''mut '']
           then ''variable_decl:'' @ language n
         else ''other:'' @ language n)"

definition detect_semantic_type :: "node \<Rightarrow> string" where
  "detect_semantic_type n =
     (let v = strip (lower (node_value n))
      in if list_ex (contains v) [''function'', ''def '', ''fn ''] then ''function''
         else if list_ex (contains v) [''class '', ''struct ''] then ''type''
         else if list_ex (contains v) [''if '', ''else''] then ''control''
         else if list_ex (contains v) [''//'', ''/*'', ''#''] then ''comment''
         else if list_ex (contains v) [''let '', ''var '', ''const ''] then ''variable''
         else ''statement'')"

definition common_constructs :: "string list" where
  "common_constructs = [''function'', ''type'', ''control'', ''comment'', ''variable'']"

definition is_common_construct :: "sem_template \<Rightarrow> bool" where
  "is_common_construct t = (st_semantic_type t \<in> set common_constructs)"

definition type_mapping :: "(string \<times> string) list" where
  "type_mapping =
     [(''line'', ''l''), (''statement'', ''s''), (''function'', ''f''), (''class'', ''c''),
      (''variable'', ''v''), (''comment'', ''cm''), (''control'', ''ctrl'')]"

definition compress_type :: "string \<Rightarrow> string" where
  "compress_type type_str =
     (case map_of type_mapping type_str of Some c \<Rightarrow> c | None \<Rightarrow> type_str)"

section \<open>Value compressor\<close>

text \<open>The dictionary literal \<^verbatim>\<open>common_patterns\<close> in iteration order: a key written twice
  (\<^verbatim>\<open>override\<close>, \<^verbatim>\<open>abstract\<close>, \<^verbatim>\<open>interface\<close>, each time with the same value) keeps
  its first position.\<close>

definition common_patterns :: "(string \<times> string) list" where
  "common_patterns =
     [(''function'', ''fn''), (''return'', ''ret''), (''variable'', ''var''),
      (''constant'', ''const''), (''public'', ''pub''), (''private'', ''priv''),
      (''protected'', ''prot''), (''interface'', ''iface''), (''implementation'', ''impl''),
      (''namespace'', ''ns''), (''exception'', ''exc''), (''parameter'', ''param''),
      (''argument'', ''arg''), (''dictionary'', ''dict''), (''array'', ''arr''),
      (''string'', ''str''), (''integer'', ''int''), (''boolean'', ''bool''),
      (''floating'', ''float''), (''character'', ''char''), (''pointer'', ''ptr''),
      (''reference'', ''ref''), (''iterator'', ''iter''), (''template'', ''tpl''),
      (''generic'', ''gen''), (''abstract'', ''abs''), (''virtual'', ''virt''),
      (''static'', ''stat''), (''final'', ''fin''), (''override'', ''ovr''),
      (''synchronized'', ''sync''), (''volatile'', ''vol''), (''transient'', ''trans''),
      (''native'', ''nat''), (''strictfp'', ''strict''), (''enumeration'', ''enum''),
      (''annotation'', ''ann''), (''deprecated'', ''dep''), (''suppress'', ''sup''),
      (''package'', ''pkg''), (''import'', ''imp''), (''export'', ''exp''),
      (''default'', ''def''), (''extends'', ''ext''), (''implements'', ''impl''),
      (''throws'', ''thr''), (''try'', ''try''), (''catch'', ''cat''),
      (''finally'', ''fin''), (''throw'', ''thr''), (''new'', ''new''),
      (''this'', ''this''), (''super'', ''super''), (''null'', ''null''),
      (''true'', ''true''), (''false'', ''false'')]"

definition prefixes_to_remove :: "string list" where
  "prefixes_to_remove =
     [''get'', ''set'', ''is'', ''has'', ''can'', ''should'', ''will'', ''do'']"

text \<open>One round of the first loop: the keyword in lower, title and upper case.\<close>

definition apply_pattern :: "string \<times> string \<Rightarrow> string \<Rightarrow> string" where
  "apply_pattern pr compressed =
     (case pr of (pattern, replacement) \<Rightarrow>
        if contains (lower compressed) pattern
        then replace (replace (replace compressed pattern replacement)
                        (title pattern) replacement)
               (upper pattern) (upper replacement)
        else compressed)"

text \<open>One round of the second loop.\<close>

definition remove_prefix :: "string \<Rightarrow> string \<Rightarrow> string" where
  "remove_prefix pfx compressed =
     (if startswith (lower compressed) pfx \<and> length compressed > length pfx + 2
      then drop (length pfx) compressed else compressed)"

definition transform_value :: "string \<Rightarrow> string" where
  "transform_value v = fold remove_prefix prefixes_to_remove (fold apply_pattern common_patterns v)"

definition compress_value :: "string \<Rightarrow> string" where
  "compress_value v =
     (if v = [] then v
      else (let compressed = transform_value v
            in if length compressed < length v then compressed else v))"


section \<open>Dictionary builder and encoder\<close>

text \<open>Phase 1, the body of the loop over the nodes: both counters are bumped, and the
  first node of a signature supplies its template.\<close>

definition count_node :: "node \<Rightarrow> pat_info dict \<times> sem_info dict \<Rightarrow> pat_info dict \<times> sem_info dict" where
  "count_node n st =
     (case st of (pats, sems) \<Rightarrow>
        let signature = create_compact_signature n;
            semantic_key = create_semantic_signature n;
            pats' = (case map_of pats signature of
                       Some info \<Rightarrow> AList.update signature (info\<lparr>pi_count := pi_count info + 1\<rparr>) pats
                     | None \<Rightarrow> AList.update signature
                         \<lparr>pi_count = 1,
                          pi_template = \<lparr>t_type = node_type n, t_value = compress_value (node_value n),
                                         t_language = language n\<rparr>\<rparr> pats);
            sems' = (case map_of sems semantic_key of
                       Some info \<Rightarrow> AList.update semantic_key (info\<lparr>si_count := si_count info + 1\<rparr>) sems
                     | None \<Rightarrow> AList.update semantic_key
                         \<lparr>si_count = 1,
                          si_template = \<lparr>st_type = node_type n, st_value = compress_value (node_value n),
                                         st_language = language n,
                                         st_semantic_type = detect_semantic_type n\<rparr>\<rparr> sems)
        in (pats', sems'))"

definition count_signatures :: "node list \<Rightarrow> pat_info dict \<times> sem_info dict" where
  "count_signatures nodes = fold count_node nodes ([], [])"

text \<open>Phase 2, the two loops over the counted signatures, each with its counter.\<close>

definition add_pattern :: "string \<times> pat_info \<Rightarrow> pat_entry dict \<times> int \<Rightarrow> pat_entry dict \<times> int" where
  "add_pattern kv st =
     (case kv of (signature, info) \<Rightarrow> case st of (pattern_dict, pattern_counter) \<Rightarrow>
        if pi_count info > 1
        then (AList.update signature
                \<lparr>pe_id = pattern_counter, pe_template = pi_template info, pe_count = pi_count info\<rparr>
                pattern_dict,
              pattern_counter + 1)
        else (pattern_dict, pattern_counter))"

definition add_semantic :: "string \<times> sem_info \<Rightarrow> sem_entry dict \<times> int \<Rightarrow> sem_entry dict \<times> int" where
  "add_semantic kv st =
     (case kv of (semantic_key, info) \<Rightarrow> case st of (semantic_dict, semantic_counter) \<Rightarrow>
        if si_count info > 1 \<or> is_common_construct (si_template info)
        then (AList.update semantic_key
                \<lparr>se_id = semantic_counter, se_template = si_template info, se_count = si_count info,
                 se_semantic_type = st_semantic_type (si_template info)\<rparr>
                semantic_dict,
              semantic_counter + 1)
        else (semantic_dict, semantic_counter))"

definition build_pattern_dict :: "pat_info dict \<Rightarrow> pat_entry dict" where
  "build_pattern_dict pats = fst (fold add_pattern pats ([], 0))"

definition build_semantic_dict :: "sem_info dict \<Rightarrow> sem_entry dict" where
  "build_semantic_dict sems = fst (fold add_semantic sems ([], 0))"

text \<open>Phase 3, the body of the loop over the nodes: semantic reference first, then
  pattern reference, then the node itself.\<close>

definition encode_node :: "pat_entry dict \<Rightarrow> sem_entry dict \<Rightarrow> node \<Rightarrow> item" where
  "encode_node pattern_dict semantic_dict n =
     (let signature = create_compact_signature n;
          semantic_key = create_semantic_signature n
      in case map_of semantic_dict semantic_key of
           Some e \<Rightarrow> Item_S (se_id e) (line_number n)
         | None \<Rightarrow>
             (case map_of pattern_dict signature of
                Some e \<Rightarrow>
                  if pe_count e > 1 then Item_P (pe_id e) (line_number n)
                  else Item_O (compress_type (node_type n)) (compress_value (node_value n)) (line_number n)
              | None \<Rightarrow>
                  Item_O (compress_type (node_type n)) (compress_value (node_value n)) (line_number n)))"

definition encode_nodes :: "pat_entry dict \<Rightarrow> sem_entry dict \<Rightarrow> node list \<Rightarrow> item list" where
  "encode_nodes pattern_dict semantic_dict nodes =
     fold (\<lambda>n compressed_data. compressed_data @ [encode_node pattern_dict semantic_dict n]) nodes []"

definition simulate_compression :: "node list \<Rightarrow> compressed" where
  "simulate_compression nodes =
     (if nodes = [] then empty_dict
      else (case count_signatures nodes of (pats, sems) \<Rightarrow>
        let pattern_dict = build_pattern_dict pats;
            semantic_dict = build_semantic_dict sems;
            compressed_data = encode_nodes pattern_dict semantic_dict nodes
        in \<lparr>patterns = Some pattern_dict,
            semantic_patterns = Some semantic_dict,
            data = Some compressed_data,
            metadata = Some \<lparr>total_nodes = int (length nodes),
                             pattern_count = int (length pattern_dict),
                             semantic_count = int (length semantic_dict),
                             compression_version = ''5.0'',
                             advanced_features = True\<rparr>\<rparr>))"

section \<open>Decoder\<close>

text \<open>The search loops of the decoder: the template of the first entry with the id.\<close>

definition find_pattern :: "pat_entry dict \<Rightarrow> int \<Rightarrow> template option" where
  "find_pattern pats pattern_id =
     map_option (\<lambda>(sig, info). pe_template info) (find (\<lambda>(sig, info). pe_id info = pattern_id) pats)"

definition find_semantic :: "sem_entry dict \<Rightarrow> int \<Rightarrow> sem_template option" where
  "find_semantic sems semantic_id =
     map_option (\<lambda>(sig, info). se_template info) (find (\<lambda>(sig, info). se_id info = semantic_id) sems)"

text \<open>The body of the loop over \<^verbatim>\<open>data\<close>. A reference whose id is in no entry leaves
  \<^verbatim>\<open>template\<close> at \<^verbatim>\<open>None\<close>, and the guard \<^verbatim>\<open>if template:\<close> then appends nothing;
  a template that was found has its keys and so passes the guard. The loop has no
  \<^verbatim>\<open>raise\<close> and no \<^verbatim>\<open>else\<close> branch; the three tags of \<^typ>\<open>item\<close> are the ones the
  encoder writes.\<close>

definition decode_item :: "pat_entry dict \<Rightarrow> sem_entry dict \<Rightarrow> item \<Rightarrow> node list \<Rightarrow> node list" where
  "decode_item pats sems it reconstructed =
     (case it of
        Item_P pattern_id line \<Rightarrow>
          (case find_pattern pats pattern_id of
             Some t \<Rightarrow> reconstructed @
               [\<lparr>node_type = t_type t, node_value = t_value t, line_number = line,
                 language = t_language t, semantic_type = None\<rparr>]
           | None \<Rightarrow> reconstructed)
      | Item_S semantic_id line \<Rightarrow>
          (case find_semantic sems semantic_id of
             Some t \<Rightarrow> reconstructed @
               [\<lparr>node_type = st_type t, node_value = st_value t, line_number = line,
                 language = st_language t, semantic_type = Some (st_semantic_type t)\<rparr>]
           | None \<Rightarrow> reconstructed)
      | Item_O ty v line \<Rightarrow> reconstructed @
          [\<lparr>node_type = ty, node_value = v, line_number = line,
            language = ''unknown'', semantic_type = None\<rparr>])"

text \<open>\<^verbatim>\<open>compressed_data.get('patterns', {})\<close> and
  \<^verbatim>\<open>compressed_data.get('semantic_patterns', {})\<close>.\<close>

definition pattern_table :: "compressed \<Rightarrow> pat_entry dict" where
  "pattern_table compressed_data =
     (case patterns compressed_data of Some d \<Rightarrow> d | None \<Rightarrow> [])"

definition semantic_table :: "compressed \<Rightarrow> sem_entry dict" where
  "semantic_table compressed_data =
     (case semantic_patterns compressed_data of Some d \<Rightarrow> d | None \<Rightarrow> [])"

definition simulate_decompression :: "compressed \<Rightarrow> node list" where
  "simulate_decompression compressed_data =
     (case data compressed_data of
        None \<Rightarrow> []
      | Some items \<Rightarrow>
          fold (decode_item (pattern_table compressed_data) (semantic_table compressed_data))
            items [])"


section \<open>Notions used to state the properties\<close>

text \<open>The record list of a document (empty when the key \<^verbatim>\<open>data\<close> is absent) and the
  line number a record carries.\<close>

definition records :: "compressed \<Rightarrow> item list" where
  "records compressed_data = (case data compressed_data of Some items \<Rightarrow> items | None \<Rightarrow> [])"

fun item_line :: "item \<Rightarrow> int" where
  "item_line (Item_P pattern_id line) = line"
| "item_line (Item_S semantic_id line) = line"
| "item_line (Item_O ty v line) = line"

text \<open>A record resolves in a document when it is a literal, or a reference whose id is
  the id of an entry of its table; a document is valid when all its records resolve.\<close>

fun resolves :: "compressed \<Rightarrow> item \<Rightarrow> bool" where
  "resolves doc (Item_P pattern_id line) =
     list_ex (\<lambda>(sig, info). pe_id info = pattern_id) (pattern_table doc)"
| "resolves doc (Item_S semantic_id line) =
     list_ex (\<lambda>(sig, info). se_id info = semantic_id) (semantic_table doc)"
| "resolves doc (Item_O ty v line) = True"

definition valid_document :: "compressed \<Rightarrow> bool" where
  "valid_document doc = list_all (resolves doc) (records doc)"

text \<open>The inclusion rule of the semantic table, on an entry.\<close>

definition sem_ok :: "sem_entry \<Rightarrow> bool" where
  "sem_ok e = (1 < se_count e \<or> se_semantic_type e \<in> set common_constructs)"

text \<open>Concrete inputs: a node as \<^verbatim>\<open>create_test_ast\<close> builds it, the five lines of
  scenario A, and a document whose first record refers to an entry that is not there.\<close>

definition line_node :: "string \<Rightarrow> int \<Rightarrow> string \<Rightarrow> node" where
  "line_node v i lang =
     \<lparr>node_type = ''line'', node_value = v, line_number = i, language = lang, semantic_type = None\<rparr>"

definition scenario_a :: "node list" where
  "scenario_a =
     [line_node ''let x = 1;'' 1 ''demo'', line_node ''let x = 1;'' 2 ''demo'',
      line_node ''// note'' 3 ''demo'', line_node ''let y = 2;'' 4 ''demo'',
      line_node ''// note'' 5 ''demo'']"

definition doc_missing_ref :: compressed where
  "doc_missing_ref =
     \<lparr>patterns = Some [], semantic_patterns = Some [],
      data = Some [Item_P 0 1, Item_O ''l'' ''x'' 2],
      metadata = Some \<lparr>total_nodes = 2, pattern_count = 0, semantic_count = 0,
                       compression_version = ''5.0'', advanced_features = True\<rparr>\<rparr>"

text \<open>A document whose only record is a literal and whose metadata counts two nodes.\<close>

definition doc_wrong_total :: compressed where
  "doc_wrong_total =
     \<lparr>patterns = Some [], semantic_patterns = Some [],
      data = Some [Item_O ''l'' ''x'' 1],
      metadata = Some \<lparr>total_nodes = 2, pattern_count = 0, semantic_count = 0,
                       compression_version = ''5.0'', advanced_features = True\<rparr>\<rparr>"

text \<open>Two lines that agree on their first 30 characters and differ in their semantic
  category, and the two lines of scenario B built from raw text.\<close>

definition scenario_p :: "node list" where
  "scenario_p =
     [line_node ''xxxxxxxxxxxxxxxxxxxxxxxxxxxxxx return 1'' 1 ''demo'',
      line_node ''xxxxxxxxxxxxxxxxxxxxxxxxxxxxxx while y'' 2 ''demo'']"

definition scenario_b :: "string \<Rightarrow> node list" where
  "scenario_b lang = create_test_ast (''fn foo() {}'' @ [CHR 0x0A] @ ''fn bar() {}'') lang"

section \<open>The encoder's loops and dictionaries\<close>

lemma fold_snoc_map: "fold (\<lambda>x acc. acc @ [f x]) xs acc = acc @ map f xs"
  by (induction xs arbitrary: acc) simp_all

lemma encode_nodes_map: "encode_nodes pd sd nodes = map (encode_node pd sd) nodes"
  by (simp add: encode_nodes_def fold_snoc_map)

lemma set_update_subset: "set (AList.update k v al) \<subseteq> insert (k, v) (set al)"
  by (induction al) auto

lemma add_pattern_inv:
  assumes "\<forall>(k, e) \<in> set (fst st). 1 < pe_count e"
  shows "\<forall>(k, e) \<in> set (fst (add_pattern kv st)). 1 < pe_count e"
proof (cases kv; cases st)
  fix sig info d c
  assume kv: "kv = (sig, info)" and st: "st = (d, c)"
  show ?thesis
  proof (cases "1 < pi_count info")
    case True
    have "set (fst (add_pattern kv st))
            \<subseteq> insert (sig, \<lparr>pe_id = c, pe_template = pi_template info, pe_count = pi_count info\<rparr>) (set d)"
      using True by (simp add: add_pattern_def kv st set_update_subset)
    with assms True show ?thesis by (auto simp: st)
  next
    case False
    with assms show ?thesis by (simp add: add_pattern_def kv st)
  qed
qed

lemma fold_add_pattern_inv:
  "\<forall>(k, e) \<in> set (fst st). 1 < pe_count e \<Longrightarrow>
   \<forall>(k, e) \<in> set (fst (fold add_pattern xs st)). 1 < pe_count e"
proof (induction xs arbitrary: st)
  case Nil
  then show ?case by simp
next
  case (Cons x xs)
  show ?case using Cons.IH [OF add_pattern_inv [OF Cons.prems]] by simp
qed

lemma build_pattern_dict_counts:
  "(k, e) \<in> set (build_pattern_dict pats) \<Longrightarrow> 1 < pe_count e"
  using fold_add_pattern_inv [of "([], 0)" pats] by (auto simp: build_pattern_dict_def)

lemma add_semantic_inv:
  assumes "\<forall>(k, e) \<in> set (fst st). sem_ok e"
  shows "\<forall>(k, e) \<in> set (fst (add_semantic kv st)). sem_ok e"
proof (cases kv; cases st)
  fix sig info d c
  assume kv: "kv = (sig, info)" and st: "st = (d, c)"
  show ?thesis
  proof (cases "1 < si_count info \<or> is_common_construct (si_template info)")
    case True
    let ?e = "\<lparr>se_id = c, se_template = si_template info, se_count = si_count info,
                se_semantic_type = st_semantic_type (si_template info)\<rparr>"
    have "set (fst (add_semantic kv st)) \<subseteq> insert (sig, ?e) (set d)"
      using True by (simp add: add_semantic_def kv st set_update_subset)
    moreover have "sem_ok ?e"
      using True by (auto simp: sem_ok_def is_common_construct_def)
    ultimately show ?thesis using assms by (auto simp: st)
  next
    case False
    with assms show ?thesis by (simp add: add_semantic_def kv st)
  qed
qed

lemma fold_add_semantic_inv:
  "\<forall>(k, e) \<in> set (fst st). sem_ok e \<Longrightarrow>
   \<forall>(k, e) \<in> set (fst (fold add_semantic xs st)). sem_ok e"
proof (induction xs arbitrary: st)
  case Nil
  then show ?case by simp
next
  case (Cons x xs)
  show ?case using Cons.IH [OF add_semantic_inv [OF Cons.prems]] by simp
qed

lemma build_semantic_dict_ok:
  "(k, e) \<in> set (build_semantic_dict sems) \<Longrightarrow> sem_ok e"
  using fold_add_semantic_inv [of "([], 0)" sems] by (auto simp: build_semantic_dict_def)

lemma simulate_compression_nonempty:
  "nodes \<noteq> [] \<Longrightarrow>
   simulate_compression nodes =
     (let pd = build_pattern_dict (fst (count_signatures nodes));
          sd = build_semantic_dict (snd (count_signatures nodes))
      in \<lparr>patterns = Some pd, semantic_patterns = Some sd,
          data = Some (map (encode_node pd sd) nodes),
          metadata = Some \<lparr>total_nodes = int (length nodes), pattern_count = int (length pd),
                           semantic_count = int (length sd), compression_version = ''5.0'',
                           advanced_features = True\<rparr>\<rparr>)"
  by (simp add: simulate_compression_def encode_nodes_map Let_def split: prod.split)

lemma pattern_table_encoded:
  "pattern_table (simulate_compression nodes) =
     (if nodes = [] then [] else build_pattern_dict (fst (count_signatures nodes)))"
  by (simp add: simulate_compression_nonempty pattern_table_def Let_def)
     (simp add: simulate_compression_def empty_dict_def)

lemma semantic_table_encoded:
  "semantic_table (simulate_compression nodes) =
     (if nodes = [] then [] else build_semantic_dict (snd (count_signatures nodes)))"
  by (simp add: simulate_compression_nonempty semantic_table_def Let_def)
     (simp add: simulate_compression_def empty_dict_def)

section \<open>The decoder's loop\<close>

lemma decode_item_append:
  "decode_item pats sems it acc = acc @ decode_item pats sems it []"
  by (cases it) (simp_all add: decode_item_def split: option.split)

lemma fold_decode_item:
  "fold (decode_item pats sems) items acc =
     acc @ concat (map (\<lambda>it. decode_item pats sems it []) items)"
proof (induction items arbitrary: acc)
  case Nil
  then show ?case by simp
next
  case (Cons it items)
  have "fold (decode_item pats sems) (it # items) acc =
          fold (decode_item pats sems) items (decode_item pats sems it acc)" by simp
  also have "\<dots> = decode_item pats sems it acc @ concat (map (\<lambda>it. decode_item pats sems it []) items)"
    by (rule Cons.IH)
  also have "decode_item pats sems it acc = acc @ decode_item pats sems it []"
    by (rule decode_item_append)
  finally show ?case by simp
qed

lemma simulate_decompression_concat:
  "simulate_decompression doc =
     concat (map (\<lambda>it. decode_item (pattern_table doc) (semantic_table doc) it []) (records doc))"
  by (simp add: simulate_decompression_def records_def fold_decode_item split: option.split)

lemma find_pattern_None: "find_pattern pats i = None \<longleftrightarrow> \<not> list_ex (\<lambda>(sig, info). pe_id info = i) pats"
  by (auto simp: find_pattern_def find_None_iff list_ex_iff)

lemma find_semantic_None: "find_semantic sems i = None \<longleftrightarrow> \<not> list_ex (\<lambda>(sig, info). se_id info = i) sems"
  by (auto simp: find_semantic_def find_None_iff list_ex_iff)

lemma decode_item_unresolved:
  "\<not> resolves doc it \<Longrightarrow> decode_item (pattern_table doc) (semantic_table doc) it acc = acc"
  by (cases it) (simp_all add: decode_item_def find_pattern_None find_semantic_None split: option.split)

lemma decode_item_resolved:
  "resolves doc it \<Longrightarrow>
   \<exists>n. decode_item (pattern_table doc) (semantic_table doc) it [] = [n] \<and> line_number n = item_line it"
proof (cases it)
  case (Item_P i l)
  assume "resolves doc it"
  then obtain t where "find_pattern (pattern_table doc) i = Some t"
    using find_pattern_None [of "pattern_table doc" i] Item_P by auto
  then show ?thesis by (simp add: decode_item_def Item_P)
next
  case (Item_S i l)
  assume "resolves doc it"
  then obtain t where "find_semantic (semantic_table doc) i = Some t"
    using find_semantic_None [of "semantic_table doc" i] Item_S by auto
  then show ?thesis by (simp add: decode_item_def Item_S)
next
  case (Item_O ty v l)
  then show ?thesis by (simp add: decode_item_def)
qed

lemma decode_item_lines:
  "map line_number (decode_item (pattern_table doc) (semantic_table doc) it []) =
     (if resolves doc it then [item_line it] else [])"
  using decode_item_resolved [of doc it] decode_item_unresolved [of doc it "[]"] by auto

lemma concat_map_if_single:
  "concat (map (\<lambda>x. if P x then [f x] else []) xs) = map f (filter P xs)"
  by (induction xs) simp_all

lemma decoded_lines:
  "map line_number (simulate_decompression doc) = map item_line (filter (resolves doc) (records doc))"
proof -
  have "map line_number (simulate_decompression doc) =
          concat (map (\<lambda>it. map line_number (decode_item (pattern_table doc) (semantic_table doc) it []))
                    (records doc))"
    by (simp add: simulate_decompression_concat map_concat comp_def)
  also have "\<dots> = concat (map (\<lambda>it. if resolves doc it then [item_line it] else []) (records doc))"
    by (simp only: decode_item_lines)
  also have "\<dots> = map item_line (filter (resolves doc) (records doc))"
    by (rule concat_map_if_single)
  finally show ?thesis .
qed

lemma decoded_length:
  "length (simulate_decompression doc) = length (filter (resolves doc) (records doc))"
  using arg_cong [OF decoded_lines [of doc], of length] by simp

lemma valid_filter: "valid_document doc \<Longrightarrow> filter (resolves doc) (records doc) = records doc"
  by (simp add: valid_document_def list_all_iff)

lemma resolves_data_update [simp]: "resolves (doc\<lparr>data := d\<rparr>) it = resolves doc it"
  by (cases it) (simp_all add: pattern_table_def semantic_table_def)

lemma concat_map_filter_nil:
  "(\<And>x. x \<in> set xs \<Longrightarrow> \<not> P x \<Longrightarrow> f x = []) \<Longrightarrow> concat (map f (filter P xs)) = concat (map f xs)"
  by (induction xs) auto

lemma prefixes_nonempty: "pfx \<in> set prefixes_to_remove \<Longrightarrow> pfx \<noteq> []"
  by (auto simp: prefixes_to_remove_def)

section \<open>Documents produced by the encoder\<close>

lemma encode_node_resolves:
  assumes "pattern_table doc = pd" and "semantic_table doc = sd"
  shows "resolves doc (encode_node pd sd n)"
proof (cases "map_of sd (create_semantic_signature n)")
  case (Some e)
  then have "(create_semantic_signature n, e) \<in> set sd" by (rule map_of_SomeD)
  then have "list_ex (\<lambda>(sig, info). se_id info = se_id e) sd" by (auto simp: list_ex_iff)
  with Some assms show ?thesis by (simp add: encode_node_def)
next
  case None
  show ?thesis
  proof (cases "map_of pd (create_compact_signature n)")
    case (Some e)
    then have "(create_compact_signature n, e) \<in> set pd" by (rule map_of_SomeD)
    then have "list_ex (\<lambda>(sig, info). pe_id info = pe_id e) pd" by (auto simp: list_ex_iff)
    with Some None assms show ?thesis by (simp add: encode_node_def)
  next
    case pnone: None
    with None show ?thesis by (simp add: encode_node_def)
  qed
qed

lemma records_encoded:
  "records (simulate_compression nodes) =
     map (encode_node (pattern_table (simulate_compression nodes))
            (semantic_table (simulate_compression nodes))) nodes"
proof (cases "nodes = []")
  case True
  then show ?thesis by (simp add: simulate_compression_def empty_dict_def records_def)
next
  case False
  then show ?thesis
    by (simp add: simulate_compression_nonempty records_def pattern_table_def semantic_table_def Let_def)
qed

lemma encoded_valid: "valid_document (simulate_compression nodes)"
  unfolding valid_document_def list_all_iff
proof
  fix it assume "it \<in> set (records (simulate_compression nodes))"
  then obtain n where "it = encode_node (pattern_table (simulate_compression nodes))
            (semantic_table (simulate_compression nodes)) n"
    by (auto simp: records_encoded)
  then show "resolves (simulate_compression nodes) it"
    using encode_node_resolves [OF refl refl] by simp
qed

lemma encoded_roundtrip_length:
  "length (simulate_decompression (simulate_compression nodes)) = length nodes"
  using valid_filter [OF encoded_valid [of nodes]]
  by (simp add: decoded_length records_encoded)

section \<open>Scenario B, evaluated\<close>

lemma strip_foo: "strip (lower ''fn foo() {}'') = ''fn foo() {}''" by code_simp
lemma strip_bar: "strip (lower ''fn bar() {}'') = ''fn bar() {}''" by code_simp
lemma fn_foo: "list_ex (contains ''fn foo() {}'') [''function'', ''def '', ''fn '', ''pub fn'', ''fn '']" by code_simp
lemma fn_bar: "list_ex (contains ''fn bar() {}'') [''function'', ''def '', ''fn '', ''pub fn'', ''fn '']" by code_simp
lemma fn_foo3: "list_ex (contains ''fn foo() {}'') [''function'', ''def '', ''fn '']" by code_simp
lemma fn_bar3: "list_ex (contains ''fn bar() {}'') [''function'', ''def '', ''fn '']" by code_simp
lemma cv_foo: "compress_value ''fn foo() {}'' = ''fn foo() {}''" by code_simp
lemma cv_bar: "compress_value ''fn bar() {}'' = ''fn bar() {}''" by code_simp

lemma css_foo: "create_semantic_signature (line_node ''fn foo() {}'' i lang) = ''function_decl:'' @ lang"
  unfolding create_semantic_signature_def line_node_def by (simp only: node.simps strip_foo Let_def fn_foo if_True)
lemma css_bar: "create_semantic_signature (line_node ''fn bar() {}'' i lang) = ''function_decl:'' @ lang"
  unfolding create_semantic_signature_def line_node_def by (simp only: node.simps strip_bar Let_def fn_bar if_True)
lemma dst_foo: "detect_semantic_type (line_node ''fn foo() {}'' i lang) = ''function''"
  unfolding detect_semantic_type_def line_node_def by (simp only: node.simps strip_foo Let_def fn_foo3 if_True)
lemma ccs_foo: "create_compact_signature (line_node ''fn foo() {}'' i lang) = ''line:fn foo() {}:'' @ lang"
  by (simp add: create_compact_signature_def line_node_def)
lemma ccs_bar: "create_compact_signature (line_node ''fn bar() {}'' i lang) = ''line:fn bar() {}:'' @ lang"
  by (simp add: create_compact_signature_def line_node_def)

lemma count_b: "count_signatures [line_node ''fn foo() {}'' 1 lang, line_node ''fn bar() {}'' 2 lang] =
   ([(''line:fn foo() {}:'' @ lang, \<lparr>pi_count = 1, pi_template = \<lparr>t_type = ''line'', t_value = ''fn foo() {}'', t_language = lang\<rparr>\<rparr>),
     (''line:fn bar() {}:'' @ lang, \<lparr>pi_count = 1, pi_template = \<lparr>t_type = ''line'', t_value = ''fn bar() {}'', t_language = lang\<rparr>\<rparr>)],
    [(''function_decl:'' @ lang, \<lparr>si_count = 2, si_template = \<lparr>st_type = ''line'', st_value = ''fn foo() {}'', st_language = lang, st_semantic_type = ''function''\<rparr>\<rparr>)])"
  by (simp add: count_signatures_def count_node_def css_foo css_bar ccs_foo ccs_bar dst_foo)
     (simp add: line_node_def cv_foo cv_bar)

lemma enc_b: "simulate_compression [line_node ''fn foo() {}'' 1 lang, line_node ''fn bar() {}'' 2 lang] =
  \<lparr>patterns = Some [],
   semantic_patterns = Some [(''function_decl:'' @ lang, \<lparr>se_id = 0, se_template = \<lparr>st_type = ''line'', st_value = ''fn foo() {}'', st_language = lang, st_semantic_type = ''function''\<rparr>, se_count = 2, se_semantic_type = ''function''\<rparr>)],
   data = Some [Item_S 0 1, Item_S 0 2],
   metadata = Some \<lparr>total_nodes = 2, pattern_count = 0, semantic_count = 1, compression_version = ''5.0'', advanced_features = True\<rparr>\<rparr>"
  by (simp add: simulate_compression_def count_b build_pattern_dict_def build_semantic_dict_def add_pattern_def add_semantic_def
       encode_nodes_def encode_node_def css_foo css_bar)
     (simp add: line_node_def)

lemma dec_b: "simulate_decompression (simulate_compression [line_node ''fn foo() {}'' 1 lang, line_node ''fn bar() {}'' 2 lang]) =
  [\<lparr>node_type = ''line'', node_value = ''fn foo() {}'', line_number = 1, language = lang, semantic_type = Some ''function''\<rparr>,
   \<lparr>node_type = ''line'', node_value = ''fn foo() {}'', line_number = 2, language = lang, semantic_type = Some ''function''\<rparr>]"
  by (simp add: enc_b simulate_decompression_def pattern_table_def semantic_table_def decode_item_def find_semantic_def)

lemma split_b: "split_lines (''fn foo() {}'' @ [CHR 0x0A] @ ''fn bar() {}'') = [''fn foo() {}'', ''fn bar() {}'']" by code_simp
lemma ast_b: "scenario_b lang = [line_node ''fn foo() {}'' 1 lang, line_node ''fn bar() {}'' 2 lang]"
proof -
  have s1: "strip ''fn foo() {}'' = ''fn foo() {}''" by code_simp
  have s2: "strip ''fn bar() {}'' = ''fn bar() {}''" by code_simp
  show ?thesis
    unfolding scenario_b_def create_test_ast_def split_b by (simp add: s1 s2 line_node_def)
qed

section \<open>Scenario A and the truncation scenario, evaluated\<close>

lemma enc_a: "simulate_compression scenario_a =
  \<lparr>patterns = Some
     [(''line:let x = 1;:demo'',
       \<lparr>pe_id = 0, pe_template = \<lparr>t_type = ''line'', t_value = ''let x = 1;'', t_language = ''demo''\<rparr>,
        pe_count = 2\<rparr>),
      (''line:// note:demo'',
       \<lparr>pe_id = 1, pe_template = \<lparr>t_type = ''line'', t_value = ''// note'', t_language = ''demo''\<rparr>,
        pe_count = 2\<rparr>)],
   semantic_patterns = Some
     [(''variable_decl:demo'',
       \<lparr>se_id = 0,
        se_template = \<lparr>st_type = ''line'', st_value = ''let x = 1;'', st_language = ''demo'',
                        st_semantic_type = ''variable''\<rparr>,
        se_count = 3, se_semantic_type = ''variable''\<rparr>),
      (''comment:demo'',
       \<lparr>se_id = 1,
        se_template = \<lparr>st_type = ''line'', st_value = ''// note'', st_language = ''demo'',
                        st_semantic_type = ''comment''\<rparr>,
        se_count = 2, se_semantic_type = ''comment''\<rparr>)],
   data = Some [Item_S 0 1, Item_S 0 2, Item_S 1 3, Item_S 0 4, Item_S 1 5],
   metadata = Some \<lparr>total_nodes = 5, pattern_count = 2, semantic_count = 2,
                    compression_version = ''5.0'', advanced_features = True\<rparr>\<rparr>"
  by code_simp

lemma enc_p: "simulate_compression scenario_p =
  \<lparr>patterns = Some
     [(''line:xxxxxxxxxxxxxxxxxxxxxxxxxxxxxx:demo'',
       \<lparr>pe_id = 0,
        pe_template = \<lparr>t_type = ''line'', t_value = ''xxxxxxxxxxxxxxxxxxxxxxxxxxxxxx ret 1'',
                       t_language = ''demo''\<rparr>,
        pe_count = 2\<rparr>)],
   semantic_patterns = Some [],
   data = Some [Item_P 0 1, Item_P 0 2],
   metadata = Some \<lparr>total_nodes = 2, pattern_count = 1, semantic_count = 0,
                    compression_version = ''5.0'', advanced_features = True\<rparr>\<rparr>"
  by code_simp

section \<open>The claims\<close>

subsection \<open>C1\<close>

text \<open>
  Claim C1, as stated, fails: the decoder never reads the metadata, so a document whose
  references all resolve can carry any \<^verbatim>\<open>total_nodes\<close>. Here one literal record is
  decoded to one node while the metadata counts two.
\<close>

theorem roundtrip_count_counterexample:
  "valid_document doc_wrong_total \<and>
   map_option total_nodes (metadata doc_wrong_total) = Some 2 \<and>
   length (simulate_decompression doc_wrong_total) = 1"
  by (simp add: valid_document_def records_def doc_wrong_total_def simulate_decompression_def
        decode_item_def)

text \<open>
  Claim C1, amended. For every document whose references all resolve, the decoder returns
  as many nodes as the document has records. For every input, decoding the encoder's
  output returns as many nodes as the input has, and for a non-empty input that number is
  the \<^verbatim>\<open>total_nodes\<close> the encoder wrote into the metadata.
\<close>

theorem roundtrip_count:
  "(valid_document doc \<longrightarrow> length (simulate_decompression doc) = length (records doc)) \<and>
   length (simulate_decompression (simulate_compression nodes)) = length nodes \<and>
   (nodes \<noteq> [] \<longrightarrow>
      map_option total_nodes (metadata (simulate_compression nodes)) = Some (int (length nodes)))"
proof (intro conjI impI)
  assume "valid_document doc"
  then show "length (simulate_decompression doc) = length (records doc)"
    by (simp add: decoded_length valid_filter)
next
  show "length (simulate_decompression (simulate_compression nodes)) = length nodes"
    by (rule encoded_roundtrip_length)
next
  assume "nodes \<noteq> []"
  then show "map_option total_nodes (metadata (simulate_compression nodes)) = Some (int (length nodes))"
    by (simp add: simulate_compression_nonempty Let_def)
qed

text \<open>Scenario A: five nodes in, five records, five nodes out.\<close>

theorem roundtrip_count_witness:
  "valid_document (simulate_compression scenario_a) \<and> scenario_a \<noteq> [] \<and>
   length (simulate_decompression (simulate_compression scenario_a)) = 5 \<and>
   length (records (simulate_compression scenario_a)) = 5 \<and>
   map_option total_nodes (metadata (simulate_compression scenario_a)) = Some 5"
proof -
  have v: "valid_document (simulate_compression scenario_a)"
    by (simp add: enc_a valid_document_def records_def pattern_table_def semantic_table_def)
  have n: "scenario_a \<noteq> []" by (simp add: scenario_a_def)
  have l: "length scenario_a = 5" by (simp add: scenario_a_def)
  have r: "length (records (simulate_compression scenario_a)) = 5" by (simp add: enc_a records_def)
  show ?thesis
    using v n l r roundtrip_count [of "simulate_compression scenario_a" scenario_a] by simp
qed

subsection \<open>C2\<close>

text \<open>
  Claim C2, as stated, fails: the decoder has no error path. The first record of this
  document refers to pattern 0 of an empty pattern table; the decoder leaves it out and
  returns the node of the second record.
\<close>

theorem decode_error_counterexample:
  "\<not> resolves doc_missing_ref (Item_P 0 1) \<and>
   records doc_missing_ref = [Item_P 0 1, Item_O ''l'' ''x'' 2] \<and>
   simulate_decompression doc_missing_ref =
     [\<lparr>node_type = ''l'', node_value = ''x'', line_number = 2, language = ''unknown'',
       semantic_type = None\<rparr>]"
  by (simp add: doc_missing_ref_def records_def pattern_table_def simulate_decompression_def
        semantic_table_def decode_item_def find_pattern_def)

text \<open>
  Claim C2, amended. A semantic or pattern reference whose id is in no entry of its table
  appends nothing to the output; decoding a document gives what decoding it without its
  unresolved records gives, one node per record that resolves.
\<close>

theorem unresolved_reference_skipped:
  "(\<not> resolves doc it \<longrightarrow> decode_item (pattern_table doc) (semantic_table doc) it acc = acc) \<and>
   simulate_decompression doc =
     simulate_decompression (doc\<lparr>data := Some (filter (resolves doc) (records doc))\<rparr>) \<and>
   length (simulate_decompression doc) = length (filter (resolves doc) (records doc))"
proof (intro conjI impI)
  assume "\<not> resolves doc it"
  then show "decode_item (pattern_table doc) (semantic_table doc) it acc = acc"
    by (rule decode_item_unresolved)
next
  have "concat (map (\<lambda>it. decode_item (pattern_table doc) (semantic_table doc) it [])
                  (filter (resolves doc) (records doc))) =
        concat (map (\<lambda>it. decode_item (pattern_table doc) (semantic_table doc) it []) (records doc))"
    by (rule concat_map_filter_nil) (simp add: decode_item_unresolved)
  then show "simulate_decompression doc =
     simulate_decompression (doc\<lparr>data := Some (filter (resolves doc) (records doc))\<rparr>)"
    by (simp add: simulate_decompression_concat)
       (simp add: records_def pattern_table_def semantic_table_def)
next
  show "length (simulate_decompression doc) = length (filter (resolves doc) (records doc))"
    by (rule decoded_length)
qed

text \<open>The unresolved pattern reference of the document above.\<close>

theorem unresolved_reference_skipped_witness:
  "\<not> resolves doc_missing_ref (Item_P 0 1) \<and>
   decode_item (pattern_table doc_missing_ref) (semantic_table doc_missing_ref) (Item_P 0 1) [] = []"
proof -
  have h: "\<not> resolves doc_missing_ref (Item_P 0 1)"
    by (simp add: doc_missing_ref_def pattern_table_def)
  show ?thesis using h unresolved_reference_skipped [of doc_missing_ref "Item_P 0 1" "[]"] by blast
qed

subsection \<open>C3\<close>

text \<open>
  Claim C3. In the document the encoder builds, the record of the \<open>i\<close>-th node is a
  semantic reference whenever the node's semantic signature is a key of the semantic
  table, whatever the pattern table holds for its exact signature; it is a pattern
  reference only when the semantic lookup misses and the exact signature's entry has a
  count above 1 (and then it is one); in every other case it is the literal record with
  the compressed type and value.
\<close>

theorem encoder_priority:
  assumes "i < length nodes"
  shows "length (records (simulate_compression nodes)) = length nodes \<and>
    (\<forall>e. map_of (semantic_table (simulate_compression nodes)) (create_semantic_signature (nodes ! i)) = Some e \<longrightarrow>
       records (simulate_compression nodes) ! i = Item_S (se_id e) (line_number (nodes ! i))) \<and>
    (\<forall>pid l. records (simulate_compression nodes) ! i = Item_P pid l \<longrightarrow>
       map_of (semantic_table (simulate_compression nodes)) (create_semantic_signature (nodes ! i)) = None \<and>
       (\<exists>e. map_of (pattern_table (simulate_compression nodes)) (create_compact_signature (nodes ! i)) = Some e \<and>
            1 < pe_count e \<and> pid = pe_id e \<and> l = line_number (nodes ! i))) \<and>
    (\<forall>e. map_of (semantic_table (simulate_compression nodes)) (create_semantic_signature (nodes ! i)) = None \<and>
         map_of (pattern_table (simulate_compression nodes)) (create_compact_signature (nodes ! i)) = Some e \<and>
         1 < pe_count e \<longrightarrow>
       records (simulate_compression nodes) ! i = Item_P (pe_id e) (line_number (nodes ! i))) \<and>
    (map_of (semantic_table (simulate_compression nodes)) (create_semantic_signature (nodes ! i)) = None \<and>
     (\<forall>e. map_of (pattern_table (simulate_compression nodes)) (create_compact_signature (nodes ! i)) = Some e \<longrightarrow>
          \<not> 1 < pe_count e) \<longrightarrow>
       records (simulate_compression nodes) ! i =
         Item_O (compress_type (node_type (nodes ! i))) (compress_value (node_value (nodes ! i)))
           (line_number (nodes ! i)))"
proof -
  have len: "length (records (simulate_compression nodes)) = length nodes"
    by (simp add: records_encoded)
  have nth: "records (simulate_compression nodes) ! i =
      encode_node (pattern_table (simulate_compression nodes))
        (semantic_table (simulate_compression nodes)) (nodes ! i)"
    using assms by (simp add: records_encoded)
  show ?thesis
    unfolding nth using len
    by (auto simp: encode_node_def split: option.splits if_splits)
qed

text \<open>The comment line at index 2 of scenario A: its exact signature has a duplicated
  entry in the pattern table, and the record is the semantic reference.\<close>

theorem encoder_priority_witness:
  "(2::nat) < length scenario_a \<and>
   map_of (semantic_table (simulate_compression scenario_a)) (create_semantic_signature (scenario_a ! 2)) =
     Some \<lparr>se_id = 1,
           se_template = \<lparr>st_type = ''line'', st_value = ''// note'', st_language = ''demo'',
                           st_semantic_type = ''comment''\<rparr>,
           se_count = 2, se_semantic_type = ''comment''\<rparr> \<and>
   map_of (pattern_table (simulate_compression scenario_a)) (create_compact_signature (scenario_a ! 2)) =
     Some \<lparr>pe_id = 1, pe_template = \<lparr>t_type = ''line'', t_value = ''// note'', t_language = ''demo''\<rparr>,
           pe_count = 2\<rparr> \<and>
   records (simulate_compression scenario_a) ! 2 = Item_S 1 3"
proof -
  have h: "(2::nat) < length scenario_a" by (simp add: scenario_a_def)
  have k: "create_semantic_signature (scenario_a ! 2) = ''comment:demo''" by code_simp
  have k': "create_compact_signature (scenario_a ! 2) = ''line:// note:demo''" by code_simp
  have ln: "line_number (scenario_a ! 2) = 3" by (simp add: scenario_a_def line_node_def)
  have s: "map_of (semantic_table (simulate_compression scenario_a)) (create_semantic_signature (scenario_a ! 2)) =
     Some \<lparr>se_id = 1,
           se_template = \<lparr>st_type = ''line'', st_value = ''// note'', st_language = ''demo'',
                           st_semantic_type = ''comment''\<rparr>,
           se_count = 2, se_semantic_type = ''comment''\<rparr>"
    by (simp add: k enc_a semantic_table_def)
  have p: "map_of (pattern_table (simulate_compression scenario_a)) (create_compact_signature (scenario_a ! 2)) =
     Some \<lparr>pe_id = 1, pe_template = \<lparr>t_type = ''line'', t_value = ''// note'', t_language = ''demo''\<rparr>,
           pe_count = 2\<rparr>"
    by (simp add: k' enc_a pattern_table_def)
  have "records (simulate_compression scenario_a) ! 2 =
          Item_S (se_id \<lparr>se_id = 1,
           se_template = \<lparr>st_type = ''line'', st_value = ''// note'', st_language = ''demo'',
                           st_semantic_type = ''comment''\<rparr>,
           se_count = 2, se_semantic_type = ''comment''\<rparr>) (line_number (scenario_a ! 2))"
    using encoder_priority [OF h] s by blast
  then show ?thesis using h s p ln by simp
qed

subsection \<open>C4\<close>

text \<open>
  Claim C4. For every input, no entry of the pattern table the encoder builds has count
  1 (each has a count above 1), and every entry of the semantic table has a count above 1
  or a semantic type among function, type, control, comment and variable.
\<close>

theorem dictionary_minimality:
  "(\<forall>(sig, e) \<in> set (pattern_table (simulate_compression nodes)). pe_count e \<noteq> 1 \<and> 1 < pe_count e) \<and>
   (\<forall>(key, e) \<in> set (semantic_table (simulate_compression nodes)).
      1 < se_count e \<or> se_semantic_type e \<in> set common_constructs)"
proof (intro conjI)
  show "\<forall>(sig, e) \<in> set (pattern_table (simulate_compression nodes)). pe_count e \<noteq> 1 \<and> 1 < pe_count e"
    by (auto simp: pattern_table_encoded dest: build_pattern_dict_counts)
  show "\<forall>(key, e) \<in> set (semantic_table (simulate_compression nodes)).
      1 < se_count e \<or> se_semantic_type e \<in> set common_constructs"
    by (auto simp: semantic_table_encoded sem_ok_def dest: build_semantic_dict_ok)
qed

text \<open>Scenario A: both tables have entries, and these satisfy the rule.\<close>

theorem dictionary_minimality_witness:
  "(''line:let x = 1;:demo'',
      \<lparr>pe_id = 0, pe_template = \<lparr>t_type = ''line'', t_value = ''let x = 1;'', t_language = ''demo''\<rparr>,
       pe_count = 2\<rparr>) \<in> set (pattern_table (simulate_compression scenario_a)) \<and>
   (''comment:demo'',
      \<lparr>se_id = 1,
       se_template = \<lparr>st_type = ''line'', st_value = ''// note'', st_language = ''demo'',
                       st_semantic_type = ''comment''\<rparr>,
       se_count = 2, se_semantic_type = ''comment''\<rparr>) \<in> set (semantic_table (simulate_compression scenario_a)) \<and>
   pe_count \<lparr>pe_id = 0, pe_template = \<lparr>t_type = ''line'', t_value = ''let x = 1;'', t_language = ''demo''\<rparr>,
             pe_count = 2\<rparr> \<noteq> 1 \<and>
   (1 < se_count \<lparr>se_id = 1,
       se_template = \<lparr>st_type = ''line'', st_value = ''// note'', st_language = ''demo'',
                       st_semantic_type = ''comment''\<rparr>,
       se_count = 2, se_semantic_type = ''comment''\<rparr> \<or>
    se_semantic_type \<lparr>se_id = 1,
       se_template = \<lparr>st_type = ''line'', st_value = ''// note'', st_language = ''demo'',
                       st_semantic_type = ''comment''\<rparr>,
       se_count = 2, se_semantic_type = ''comment''\<rparr> \<in> set common_constructs)"
proof -
  have m1: "(''line:let x = 1;:demo'',
      \<lparr>pe_id = 0, pe_template = \<lparr>t_type = ''line'', t_value = ''let x = 1;'', t_language = ''demo''\<rparr>,
       pe_count = 2\<rparr>) \<in> set (pattern_table (simulate_compression scenario_a))"
    by (simp add: enc_a pattern_table_def)
  have m2: "(''comment:demo'',
      \<lparr>se_id = 1,
       se_template = \<lparr>st_type = ''line'', st_value = ''// note'', st_language = ''demo'',
                       st_semantic_type = ''comment''\<rparr>,
       se_count = 2, se_semantic_type = ''comment''\<rparr>) \<in> set (semantic_table (simulate_compression scenario_a))"
    by (simp add: enc_a semantic_table_def)
  show ?thesis
    using m1 m2 dictionary_minimality [of scenario_a] by blast
qed

subsection \<open>C5\<close>

text \<open>
  Claim C5, as stated, fails on a document with an unresolved reference: the skipped
  record shifts the output, so the node at index 0 carries line 2 while the record at
  index 0 carries line 1.
\<close>

theorem order_preservation_counterexample:
  "line_number (simulate_decompression doc_missing_ref ! 0) = 2 \<and>
   item_line (records doc_missing_ref ! 0) = 1"
  by (simp add: doc_missing_ref_def records_def pattern_table_def simulate_decompression_def
        semantic_table_def decode_item_def find_pattern_def)

text \<open>
  Claim C5, amended. For every document whose references all resolve, the decoder returns
  one node per record and the \<open>i\<close>-th node carries the line number of the \<open>i\<close>-th record.
  For every document, the line numbers of the decoded nodes are a subsequence of the
  line numbers of the records, so the order is kept.
\<close>

theorem order_preservation:
  "(valid_document doc \<longrightarrow>
      length (simulate_decompression doc) = length (records doc) \<and>
      (\<forall>i < length (records doc).
         line_number (simulate_decompression doc ! i) = item_line (records doc ! i))) \<and>
   subseq (map line_number (simulate_decompression doc)) (map item_line (records doc))"
proof (intro conjI impI allI)
  assume v: "valid_document doc"
  then show "length (simulate_decompression doc) = length (records doc)"
    by (simp add: decoded_length valid_filter)
next
  fix i
  assume v: "valid_document doc" and i: "i < length (records doc)"
  have eq: "map line_number (simulate_decompression doc) = map item_line (records doc)"
    using v by (simp add: decoded_lines valid_filter)
  have "line_number (simulate_decompression doc ! i) = map line_number (simulate_decompression doc) ! i"
    using i v by (simp add: decoded_length valid_filter)
  also have "\<dots> = item_line (records doc ! i)"
    using i by (simp add: eq)
  finally show "line_number (simulate_decompression doc ! i) = item_line (records doc ! i)" .
next
  show "subseq (map line_number (simulate_decompression doc)) (map item_line (records doc))"
    by (simp add: decoded_lines subseq_map)
qed

text \<open>The second record of the truncation scenario.\<close>

theorem order_preservation_witness:
  "valid_document (simulate_compression scenario_p) \<and>
   (1::nat) < length (records (simulate_compression scenario_p)) \<and>
   line_number (simulate_decompression (simulate_compression scenario_p) ! 1) = 2 \<and>
   item_line (records (simulate_compression scenario_p) ! 1) = 2"
proof -
  have v: "valid_document (simulate_compression scenario_p)"
    by (simp add: enc_p valid_document_def records_def pattern_table_def)
  have l: "(1::nat) < length (records (simulate_compression scenario_p))"
    by (simp add: enc_p records_def)
  have r: "item_line (records (simulate_compression scenario_p) ! 1) = 2"
    by (simp add: enc_p records_def)
  show ?thesis
    using v l r order_preservation [of "simulate_compression scenario_p"] by auto
qed

subsection \<open>C6\<close>

text \<open>
  Claim C6. The text \<^verbatim>\<open>fn foo() {}\<close>, line feed, \<^verbatim>\<open>fn bar() {}\<close> under any language
  tag gives two nodes with the semantic signature \<^verbatim>\<open>function_decl:\<close> followed by the
  tag; the semantic table has one entry, whose template holds the text of the first line;
  both records are references to it, and both decoded nodes carry that text although the
  two input texts differ.
\<close>

theorem scenario_b_lossy_merge:
  "scenario_b lang = [line_node ''fn foo() {}'' 1 lang, line_node ''fn bar() {}'' 2 lang] \<and>
   map create_semantic_signature (scenario_b lang) = [''function_decl:'' @ lang, ''function_decl:'' @ lang] \<and>
   semantic_table (simulate_compression (scenario_b lang)) =
     [(''function_decl:'' @ lang,
       \<lparr>se_id = 0,
        se_template = \<lparr>st_type = ''line'', st_value = ''fn foo() {}'', st_language = lang,
                        st_semantic_type = ''function''\<rparr>,
        se_count = 2, se_semantic_type = ''function''\<rparr>)] \<and>
   records (simulate_compression (scenario_b lang)) = [Item_S 0 1, Item_S 0 2] \<and>
   map node_value (simulate_decompression (simulate_compression (scenario_b lang))) =
     [''fn foo() {}'', ''fn foo() {}''] \<and>
   map node_value (scenario_b lang) = [''fn foo() {}'', ''fn bar() {}'']"
proof -
  have e: "simulate_compression (scenario_b lang) =
      simulate_compression [line_node ''fn foo() {}'' 1 lang, line_node ''fn bar() {}'' 2 lang]"
    by (simp only: ast_b)
  have v: "map node_value (scenario_b lang) = [''fn foo() {}'', ''fn bar() {}'']"
    by (simp add: ast_b line_node_def)
  have s: "map create_semantic_signature (scenario_b lang) =
      [''function_decl:'' @ lang, ''function_decl:'' @ lang]"
    by (simp add: ast_b css_foo css_bar)
  have t: "semantic_table (simulate_compression (scenario_b lang)) =
     [(''function_decl:'' @ lang,
       \<lparr>se_id = 0,
        se_template = \<lparr>st_type = ''line'', st_value = ''fn foo() {}'', st_language = lang,
                        st_semantic_type = ''function''\<rparr>,
        se_count = 2, se_semantic_type = ''function''\<rparr>)]"
    unfolding e by (simp add: enc_b semantic_table_def)
  have r: "records (simulate_compression (scenario_b lang)) = [Item_S 0 1, Item_S 0 2]"
    unfolding e by (simp add: enc_b records_def)
  have d: "map node_value (simulate_decompression (simulate_compression (scenario_b lang))) =
     [''fn foo() {}'', ''fn foo() {}'']"
    unfolding e by (simp add: dec_b)
  show ?thesis
    using ast_b [of lang] s t r d v by (simp only: simp_thms)
qed

subsection \<open>C7\<close>

text \<open>
  Claim C7, as stated, fails: the guard compares the length of the whole working text,
  not of what remains after the prefix. In \<^verbatim>\<open>getAbc\<close> three characters remain after
  \<^verbatim>\<open>get\<close>, which is not more than 3 + 2, and the prefix is stripped all the same.
\<close>

theorem prefix_rule_counterexample:
  "startswith ''getAbc'' ''get'' \<and>
   \<not> length ''get'' + 2 < length ''getAbc'' - length ''get'' \<and>
   compress_value ''getAbc'' = ''Abc''"
  by code_simp

text \<open>
  Claim C7, amended. Each prefix of the list, tried in order on the working text, is
  stripped exactly when the lower-cased working text begins with it and the length of the
  whole working text exceeds the prefix length plus 2. The compressor returns the
  transformed text when it is strictly shorter than the original and the original
  otherwise.
\<close>

theorem prefix_rule:
  "(\<forall>pfx \<in> set prefixes_to_remove.
      (startswith (lower c) pfx \<and> length pfx + 2 < length c
         \<longrightarrow> remove_prefix pfx c = drop (length pfx) c \<and> remove_prefix pfx c \<noteq> c) \<and>
      (\<not> (startswith (lower c) pfx \<and> length pfx + 2 < length c) \<longrightarrow> remove_prefix pfx c = c)) \<and>
   transform_value v = fold remove_prefix prefixes_to_remove (fold apply_pattern common_patterns v) \<and>
   (length (transform_value v) < length v \<longrightarrow> compress_value v = transform_value v) \<and>
   (\<not> length (transform_value v) < length v \<longrightarrow> compress_value v = v)"
proof (intro conjI ballI impI)
  fix pfx
  assume p: "pfx \<in> set prefixes_to_remove"
    and c: "startswith (lower c) pfx \<and> length pfx + 2 < length c"
  then show "remove_prefix pfx c = drop (length pfx) c" by (simp add: remove_prefix_def)
  have "0 < length pfx" using prefixes_nonempty [OF p] by simp
  then have "length (drop (length pfx) c) < length c"
    using c by (simp del: length_greater_0_conv)
  then have "drop (length pfx) c \<noteq> c" by (metis less_irrefl)
  with c show "remove_prefix pfx c \<noteq> c" by (simp add: remove_prefix_def)
next
  fix pfx
  assume "\<not> (startswith (lower c) pfx \<and> length pfx + 2 < length c)"
  then show "remove_prefix pfx c = c" by (auto simp: remove_prefix_def)
next
  show "transform_value v = fold remove_prefix prefixes_to_remove (fold apply_pattern common_patterns v)"
    by (simp add: transform_value_def)
next
  assume "length (transform_value v) < length v"
  then show "compress_value v = transform_value v" by (auto simp: compress_value_def Let_def)
next
  assume "\<not> length (transform_value v) < length v"
  then show "compress_value v = v" by (simp add: compress_value_def Let_def)
qed

text \<open>\<^verbatim>\<open>getAbc\<close> loses its prefix and is returned transformed; \<^verbatim>\<open>isOk\<close> is too short
  for the guard and is returned as it is.\<close>

theorem prefix_rule_witness:
  "''get'' \<in> set prefixes_to_remove \<and>
   startswith (lower ''getAbc'') ''get'' \<and> length ''get'' + 2 < length ''getAbc'' \<and>
   remove_prefix ''get'' ''getAbc'' = drop (length ''get'') ''getAbc'' \<and>
   \<not> (startswith (lower ''isOk'') ''is'' \<and> length ''is'' + 2 < length ''isOk'') \<and>
   remove_prefix ''is'' ''isOk'' = ''isOk'' \<and>
   length (transform_value ''getAbc'') < length ''getAbc'' \<and>
   compress_value ''getAbc'' = transform_value ''getAbc'' \<and>
   \<not> length (transform_value ''isOk'') < length ''isOk'' \<and>
   compress_value ''isOk'' = ''isOk''"
proof -
  have m1: "''get'' \<in> set prefixes_to_remove" and m2: "''is'' \<in> set prefixes_to_remove"
    by (simp_all add: prefixes_to_remove_def)
  have h1: "startswith (lower ''getAbc'') ''get'' \<and> length ''get'' + 2 < length ''getAbc''"
    by code_simp
  have h2: "\<not> (startswith (lower ''isOk'') ''is'' \<and> length ''is'' + 2 < length ''isOk'')"
    by code_simp
  have h3: "length (transform_value ''getAbc'') < length ''getAbc''" by code_simp
  have h4: "\<not> length (transform_value ''isOk'') < length ''isOk''" by code_simp
  show ?thesis
    using m1 m2 h1 h2 h3 h4 prefix_rule [of "''getAbc''" "''getAbc''"] prefix_rule [of "''isOk''" "''isOk''"]
    by blast
qed

subsection \<open>C8\<close>

text \<open>
  Claim C8, as stated, fails for the exact signature, which embeds the first 30 characters
  of the text as they are: two nodes that differ only in letter case get different exact
  signatures.
\<close>

theorem exact_signature_case_counterexample:
  "lower ''Let X'' = lower ''let x'' \<and>
   create_compact_signature (line_node ''Let X'' 1 ''demo'') = ''line:Let X:demo'' \<and>
   create_compact_signature (line_node ''let x'' 1 ''demo'') = ''line:let x:demo''"
  by code_simp

text \<open>
  Claim C8, amended. Two nodes with the same language whose texts are equal once
  lower-cased have the same semantic signature (and the same semantic type). The exact
  signature is the type, the first 30 characters of the text with their case kept, and
  the language, separated by colons.
\<close>

theorem semantic_signature_case_insensitive:
  assumes "lower (node_value a) = lower (node_value b)" and "language a = language b"
  shows "create_semantic_signature a = create_semantic_signature b \<and>
         detect_semantic_type a = detect_semantic_type b \<and>
         create_compact_signature a =
           node_type a @ '':'' @ take 30 (node_value a) @ '':'' @ language a"
proof -
  have "create_semantic_signature a = create_semantic_signature b"
    unfolding create_semantic_signature_def by (simp only: assms)
  moreover have "detect_semantic_type a = detect_semantic_type b"
    unfolding detect_semantic_type_def by (simp only: assms)
  moreover have "create_compact_signature a =
           node_type a @ '':'' @ take 30 (node_value a) @ '':'' @ language a"
    by (simp add: create_compact_signature_def)
  ultimately show ?thesis by simp
qed

text \<open>The two nodes of the counterexample have the same semantic signature.\<close>

theorem semantic_signature_case_insensitive_witness:
  "lower (node_value (line_node ''Let X'' 1 ''demo'')) = lower (node_value (line_node ''let x'' 1 ''demo'')) \<and>
   language (line_node ''Let X'' 1 ''demo'') = language (line_node ''let x'' 1 ''demo'') \<and>
   create_semantic_signature (line_node ''Let X'' 1 ''demo'') =
     create_semantic_signature (line_node ''let x'' 1 ''demo'')"
proof -
  have h1: "lower (node_value (line_node ''Let X'' 1 ''demo'')) = lower (node_value (line_node ''let x'' 1 ''demo''))"
    by code_simp
  have h2: "language (line_node ''Let X'' 1 ''demo'') = language (line_node ''let x'' 1 ''demo'')"
    by (simp add: line_node_def)
  show ?thesis using h1 h2 semantic_signature_case_insensitive [OF h1 h2] by blast
qed

subsection \<open>C9\<close>

text \<open>
  Claim C9, as stated, fails: for an empty input the encoder returns the empty
  dictionary, which has no metadata block (and so no \<^verbatim>\<open>total_nodes\<close>) and none of the
  other three keys.
\<close>

theorem empty_input_counterexample:
  "metadata (simulate_compression []) = None \<and> patterns (simulate_compression []) = None \<and>
   semantic_patterns (simulate_compression []) = None \<and> data (simulate_compression []) = None"
  by (simp add: simulate_compression_def empty_dict_def)

text \<open>
  Claim C9, amended. Encoding the empty sequence yields the empty dictionary: no pattern
  table, no semantic table, no record list and no metadata block. Read with the
  decoder's defaults its tables and records are empty, and decoding it returns the empty
  sequence.
\<close>

theorem empty_input:
  "simulate_compression [] = empty_dict \<and>
   patterns empty_dict = None \<and> semantic_patterns empty_dict = None \<and>
   data empty_dict = None \<and> metadata empty_dict = None \<and>
   pattern_table (simulate_compression []) = [] \<and> semantic_table (simulate_compression []) = [] \<and>
   records (simulate_compression []) = [] \<and>
   simulate_decompression (simulate_compression []) = []"
  by (simp add: simulate_compression_def empty_dict_def pattern_table_def semantic_table_def
        records_def simulate_decompression_def)

subsection \<open>C10\<close>



end
